theory Spec2Isabelle
  imports Complex_Main "HOL-Library.Sublist"
begin

section \<open>JavaScript values the service works with\<close>

text \<open>
  A value that a JavaScript \<^verbatim>\<open>throw\<close> carries (or a promise rejects with). The two
  catch handlers of the service ask only whether the value is an \<^verbatim>\<open>Error\<close> instance
  and, when it is, what its \<^verbatim>\<open>message\<close> is. A function that can throw returns
  \<open>js_thrown + 'a\<close>, with \<open>Inl\<close> for the thrown value.
\<close>

datatype js_thrown = JsError string | JsNonError

fun isError :: "js_thrown \<Rightarrow> bool" where
  "isError (JsError m) = True"
| "isError JsNonError = False"

fun message :: "js_thrown \<Rightarrow> string" where
  "message (JsError m) = m"
| "message JsNonError = []"

text \<open>
  \<^verbatim>\<open>String.prototype.includes\<close>: does \<open>sub\<close> occur in \<open>s\<close> as a contiguous run of
  characters. (The JavaScript name is a reserved word of the theory language, hence the
  prefix.)
\<close>

fun str_includes :: "string \<Rightarrow> string \<Rightarrow> bool" where
  "str_includes [] sub = (sub = [])"
| "str_includes (c # cs) sub = (prefix sub (c # cs) \<or> str_includes cs sub)"

text \<open>
  \<^verbatim>\<open>String.prototype.trim\<close> on strings of 8-bit code units: white space and line
  terminators are tab, line feed, vertical tab, form feed, carriage return, space and
  the no-break space.
\<close>

definition isWhiteSpace :: "char \<Rightarrow> bool" where
  "isWhiteSpace c =
     (c = CHR 0x09 \<or> c = CHR 0x0A \<or> c = CHR 0x0B \<or> c = CHR 0x0C \<or> c = CHR 0x0D
      \<or> c = CHR 0x20 \<or> c = CHR 0xA0)"

definition trim :: "string \<Rightarrow> string" where
  "trim s = rev (dropWhile isWhiteSpace (rev (dropWhile isWhiteSpace s)))"

text \<open>
  Truthiness of a value of type \<^verbatim>\<open>string | undefined\<close>: \<^verbatim>\<open>!x\<close> holds for \<^verbatim>\<open>undefined\<close>
  and for the empty string.
\<close>

definition falsy :: "string option \<Rightarrow> bool" where
  "falsy x = (case x of None \<Rightarrow> True | Some s \<Rightarrow> s = [])"

section \<open>The response schema and the two requests\<close>

datatype schema =
    SchemaString string
  | SchemaInteger string
  | SchemaArray string schema
  | SchemaObject "(string \<times> schema) list" "string list"

definition adScriptSchema :: schema where
  "adScriptSchema =
     SchemaObject
       [(''title'',
           SchemaString ''A catchy, short title for the commercial. (e.g., 'Unleash the Sound').''),
        (''tagline'',
           SchemaString ''A memorable tagline for the product. (e.g., 'Your World, Your Music.').''),
        (''scenes'',
           SchemaArray ''An array of scenes that make up the 30-second commercial.''
             (SchemaObject
                [(''sceneNumber'', SchemaInteger ''The sequential number of the scene.''),
                 (''setting'',
                    SchemaString ''The visual setting of the scene. (e.g., 'A vibrant, sunlit city park.').''),
                 (''action'',
                    SchemaString ''A description of the main action and visuals in the scene.''),
                 (''dialogue'',
                    SchemaString ''Any dialogue or voiceover in the scene. Use 'VO:' for voiceover. Use 'None' if no dialogue.''),
                 (''sound'',
                    SchemaString ''Description of sound effects or music in the scene.'')]
                [''sceneNumber'', ''setting'', ''action'', ''dialogue'', ''sound'']))]
       [''title'', ''tagline'', ''scenes'']"

record inlineData =
  data :: string
  mimeType :: string

datatype part = InlineDataPart inlineData | TextPart string

record generationConfig =
  responseMimeType :: string
  responseSchema :: schema
  temperature :: rat
  topP :: rat

record contents =
  parts :: "part list"

record contentRequest =
  model :: string
  contents :: contents
  config :: generationConfig

text \<open>
  The response of \<^verbatim>\<open>ai.models.generateContent\<close>. Its \<^verbatim>\<open>text\<close> is a string, or
  undefined when the response carries no text. (\<open>text\<close> is a reserved word of the theory
  language, hence the longer field name.)
\<close>

record generateContentResponse =
  responseText :: "string option"

text \<open>
  The request of \<^verbatim>\<open>ai.models.generateVideos\<close>. Its image has the fields
  \<^verbatim>\<open>imageBytes\<close> and \<^verbatim>\<open>mimeType\<close>, and the request the fields \<^verbatim>\<open>model\<close>, \<^verbatim>\<open>prompt\<close>,
  \<^verbatim>\<open>image\<close> and \<^verbatim>\<open>config\<close>; the names that the content request already uses carry a
  prefix here.
\<close>

record videoImage =
  imageBytes :: string
  imageMimeType :: string

record videosConfig =
  numberOfVideos :: nat

record videosRequest =
  videoModel :: string
  prompt :: string
  image :: videoImage
  videoConfig :: videosConfig

text \<open>
  The operation handle of a video generation. \<open>opDone\<close> is the truthiness of
  \<^verbatim>\<open>operation.done\<close> (\<open>done\<close> is a reserved word of the theory language). Each link of
  \<^verbatim>\<open>operation.response?.generatedVideos?.[0]?.video?.uri\<close> may be undefined, so each is
  an option; an entry of the array may be undefined as well.
\<close>

record video =
  uri :: "string option"

record generatedVideo =
  video :: "video option"

record generateVideosResponse =
  generatedVideos :: "generatedVideo option list option"

record operation =
  opDone :: bool
  response :: "generateVideosResponse option"

section \<open>The provider and the module's start\<close>

text \<open>
  The remote provider, as the SDK client presents it: what \<^verbatim>\<open>generateContent\<close> and
  \<^verbatim>\<open>generateVideos\<close> answer to a request, and what the \<open>k\<close>-th call (counted from 0)
  of \<^verbatim>\<open>operations.getVideosOperation\<close> answers when it is handed an operation. Each
  either throws or returns.
\<close>

record provider =
  generateContent :: "contentRequest \<Rightarrow> js_thrown + generateContentResponse"
  generateVideos :: "videosRequest \<Rightarrow> js_thrown + operation"
  getVideosOperation :: "nat \<Rightarrow> operation \<Rightarrow> js_thrown + operation"

record processEnv =
  API_KEY :: "string option"

record googleGenAI =
  apiKey :: string
  remote :: provider

text \<open>
  The top level of the service module:
  \<^verbatim>\<open>if (!process.env.API_KEY) { throw new Error("API_KEY environment variable not set"); }\<close>
  \<^verbatim>\<open>const ai = new GoogleGenAI({ apiKey: process.env.API_KEY });\<close>
  The exported functions exist only when this returns the client \<open>ai\<close>, which they
  take as their first argument below.
\<close>

definition moduleInit :: "provider \<Rightarrow> processEnv \<Rightarrow> js_thrown + googleGenAI" where
  "moduleInit p env =
     (if falsy (API_KEY env) then Inl (JsError ''API_KEY environment variable not set'')
      else (case API_KEY env of
              None \<Rightarrow> Inl (JsError ''API_KEY environment variable not set'')
            | Some k \<Rightarrow> Inr \<lparr>apiKey = k, remote = p\<rparr>))"

text \<open>
  The calls that leave the process, and the timer waits, in the order the code makes
  them (console output is left out: it changes no control flow).
\<close>

datatype event =
    GenerateContentCall
  | GenerateVideosCall
  | Sleep nat
  | GetVideosOperationCall

section \<open>generateAdScript\<close>

definition newline :: string where
  "newline = [CHR 0x0A]"

definition textPart :: "string \<Rightarrow> string" where
  "textPart productDescription =
     newline
     @ ''      You are a world-class creative director at a major advertising agency. '' @ newline
     @ ''      Your task is to generate a short, punchy, and visually compelling 30-second commercial script based on the provided product image and description.'' @ newline
     @ ''      The script should be structured, creative, and ready for a production team.'' @ newline
     @ ''      The tone should be energetic and inspiring.'' @ newline
     @ ''      Ensure the output is a valid JSON object matching the provided schema.'' @ newline
     @ newline
     @ ''      Product Description: ''
     @ (if productDescription = [] then ''No description provided. Analyze the image.''
        else productDescription)
     @ newline
     @ ''    ''"

definition scriptRequest :: "string \<Rightarrow> string \<Rightarrow> string \<Rightarrow> contentRequest" where
  "scriptRequest base64Image mimeType0 productDescription =
     \<lparr>model = ''gemini-2.5-flash'',
      contents = \<lparr>parts = [InlineDataPart \<lparr>data = base64Image, mimeType = mimeType0\<rparr>,
                           TextPart (textPart productDescription)]\<rparr>,
      config = \<lparr>responseMimeType = ''application/json'',
                responseSchema = adScriptSchema,
                temperature = 8 / 10,
                topP = 9 / 10\<rparr>\<rparr>"

definition rateLimitMessage :: string where
  "rateLimitMessage = ''API rate limit exceeded. Please try again later.''"

definition scriptFailedMessage :: string where
  "scriptFailedMessage =
     ''Failed to generate ad script. The model may have returned an invalid response.''"

text \<open>
  The message of the TypeError that \<^verbatim>\<open>response.text.trim()\<close> throws when
  \<^verbatim>\<open>response.text\<close> is undefined, in the wording of V8.
\<close>

definition undefinedTrimMessage :: string where
  "undefinedTrimMessage = ''Cannot read properties of undefined (reading 'trim')''"

text \<open>
  The body of the \<^verbatim>\<open>try\<close> block. \<^verbatim>\<open>JSON.parse\<close> belongs to the JavaScript engine and is
  a parameter: it returns the parsed value, of any type \<open>'v\<close>, or throws a
  \<^verbatim>\<open>SyntaxError\<close>, whose message is the \<open>Inl\<close> case.
\<close>

definition scriptTry ::
  "(string \<Rightarrow> string + 'v) \<Rightarrow> googleGenAI \<Rightarrow> contentRequest \<Rightarrow> js_thrown + 'v" where
  "scriptTry JSON_parse ai request =
     (case generateContent (remote ai) request of
        Inl error \<Rightarrow> Inl error
      | Inr response0 \<Rightarrow>
          (case responseText response0 of
             None \<Rightarrow> Inl (JsError undefinedTrimMessage)
           | Some text0 \<Rightarrow>
               (let jsonText = trim text0 in
                case JSON_parse jsonText of
                  Inl syntaxError \<Rightarrow> Inl (JsError syntaxError)
                | Inr parsed \<Rightarrow> Inr parsed)))"

text \<open>The \<^verbatim>\<open>catch\<close> block: what it throws for the value it caught.\<close>

definition scriptCatch :: "js_thrown \<Rightarrow> js_thrown" where
  "scriptCatch error =
     (if isError error \<and> str_includes (message error) ''429'' then JsError rateLimitMessage
      else JsError scriptFailedMessage)"

definition generateAdScript ::
  "(string \<Rightarrow> string + 'v) \<Rightarrow> googleGenAI \<Rightarrow> string \<Rightarrow> string \<Rightarrow> string
     \<Rightarrow> event list \<times> (js_thrown + 'v)" where
  "generateAdScript JSON_parse ai base64Image mimeType0 productDescription =
     (let request = scriptRequest base64Image mimeType0 productDescription in
      ([GenerateContentCall],
       case scriptTry JSON_parse ai request of
         Inl error \<Rightarrow> Inl (scriptCatch error)
       | Inr adScript \<Rightarrow> Inr adScript))"

section \<open>generateAdVideo\<close>

definition videoRequest :: "string \<Rightarrow> string \<Rightarrow> string \<Rightarrow> videosRequest" where
  "videoRequest prompt0 base64Image mimeType0 =
     \<lparr>videoModel = ''veo-2.0-generate-001'',
      prompt = prompt0,
      image = \<lparr>imageBytes = base64Image, imageMimeType = mimeType0\<rparr>,
      videoConfig = \<lparr>numberOfVideos = 1\<rparr>\<rparr>"

text \<open>
  The poll loop
  \<^verbatim>\<open>while (!operation.done) { await sleep(10000); operation = await getVideosOperation(...) }\<close>.
  \<open>k\<close> counts the status checks made so far and \<open>tr\<close> is the trace so far. The loop has
  no bound, so the function is partial: \<open>None\<close> is a loop that never ends.
\<close>

partial_function (option) pollLoop ::
  "(nat \<Rightarrow> operation \<Rightarrow> js_thrown + operation) \<Rightarrow> nat \<Rightarrow> operation \<Rightarrow> event list
     \<Rightarrow> (event list \<times> (js_thrown + operation)) option" where
  "pollLoop getOp k operation0 tr =
     (if opDone operation0 then Some (tr, Inr operation0)
      else (case getOp k operation0 of
              Inl error \<Rightarrow> Some (tr @ [Sleep 10000, GetVideosOperationCall], Inl error)
            | Inr operation1 \<Rightarrow>
                pollLoop getOp (Suc k) operation1 (tr @ [Sleep 10000, GetVideosOperationCall])))"

text \<open>
  The same loop, watched for at most \<open>fuel\<close> iterations: the trace so far and, when the
  loop has ended by then, the operation it ended with or the value a status check
  threw (\<open>None\<close> while the loop is still running). A run that never ends has such a
  trace for every \<open>fuel\<close>.
\<close>

fun pollLoopUpTo ::
  "nat \<Rightarrow> (nat \<Rightarrow> operation \<Rightarrow> js_thrown + operation) \<Rightarrow> nat \<Rightarrow> operation \<Rightarrow> event list
     \<Rightarrow> event list \<times> (js_thrown + operation) option" where
  "pollLoopUpTo 0 getOp k operation0 tr =
     (tr, if opDone operation0 then Some (Inr operation0) else None)"
| "pollLoopUpTo (Suc fuel) getOp k operation0 tr =
     (if opDone operation0 then (tr, Some (Inr operation0))
      else (case getOp k operation0 of
              Inl error \<Rightarrow> (tr @ [Sleep 10000, GetVideosOperationCall], Some (Inl error))
            | Inr operation1 \<Rightarrow>
                pollLoopUpTo fuel getOp (Suc k) operation1
                  (tr @ [Sleep 10000, GetVideosOperationCall])))"

text \<open>\<^verbatim>\<open>operation.response?.generatedVideos?.[0]?.video?.uri\<close>\<close>

definition downloadLinkOf :: "operation \<Rightarrow> string option" where
  "downloadLinkOf operation0 =
     (case response operation0 of
        None \<Rightarrow> None
      | Some r \<Rightarrow>
          (case generatedVideos r of
             None \<Rightarrow> None
           | Some [] \<Rightarrow> None
           | Some (None # _) \<Rightarrow> None
           | Some (Some g # _) \<Rightarrow>
               (case video g of
                  None \<Rightarrow> None
                | Some v \<Rightarrow> uri v)))"

definition missingLinkMessage :: string where
  "missingLinkMessage = ''Video generation completed, but no download link was found.''"

definition quotaMessage :: string where
  "quotaMessage =
     ''API quota exceeded. Please check your plan and billing details, or try again later.''"

definition videoFailedMessage :: string where
  "videoFailedMessage = ''Failed to generate video ad. An unexpected error occurred.''"

text \<open>The \<^verbatim>\<open>catch\<close> block of generateAdVideo.\<close>

definition videoCatch :: "js_thrown \<Rightarrow> js_thrown" where
  "videoCatch error =
     (if isError error
         \<and> (str_includes (message error) ''429''
            \<or> str_includes (message error) ''RESOURCE_EXHAUSTED'')
      then JsError quotaMessage
      else JsError videoFailedMessage)"

text \<open>
  How a template literal prints \<^verbatim>\<open>process.env.API_KEY\<close>, which the function reads
  again when it builds the returned string.
\<close>

definition envKeyText :: "processEnv \<Rightarrow> string" where
  "envKeyText env = (case API_KEY env of None \<Rightarrow> ''undefined'' | Some k \<Rightarrow> k)"

text \<open>
  The statements after the loop, still inside the \<^verbatim>\<open>try\<close> block: the missing-link
  error is thrown there, so it reaches the function's own \<^verbatim>\<open>catch\<close> block.
\<close>

definition afterLoop :: "processEnv \<Rightarrow> operation \<Rightarrow> js_thrown + string" where
  "afterLoop env operation0 =
     (let downloadLink = downloadLinkOf operation0 in
      if falsy downloadLink then Inl (JsError missingLinkMessage)
      else (case downloadLink of
              None \<Rightarrow> Inl (JsError missingLinkMessage)
            | Some link \<Rightarrow> Inr (link @ ''&key='' @ envKeyText env)))"

definition generateAdVideo ::
  "processEnv \<Rightarrow> googleGenAI \<Rightarrow> string \<Rightarrow> string \<Rightarrow> string
     \<Rightarrow> (event list \<times> (js_thrown + string)) option" where
  "generateAdVideo env ai prompt0 base64Image mimeType0 =
     (case generateVideos (remote ai) (videoRequest prompt0 base64Image mimeType0) of
        Inl error \<Rightarrow> Some ([GenerateVideosCall], Inl (videoCatch error))
      | Inr operation0 \<Rightarrow>
          (case pollLoop (getVideosOperation (remote ai)) 0 operation0 [GenerateVideosCall] of
             None \<Rightarrow> None
           | Some (tr, Inl error) \<Rightarrow> Some (tr, Inl (videoCatch error))
           | Some (tr, Inr operation1) \<Rightarrow>
               (case afterLoop env operation1 of
                  Inl error \<Rightarrow> Some (tr, Inl (videoCatch error))
                | Inr url \<Rightarrow> Some (tr, Inr url))))"

text \<open>
  generateAdVideo, watched until its loop has made at most \<open>fuel\<close> iterations: the
  trace so far and, when the call has ended by then, its outcome.
\<close>

definition generateAdVideoUpTo ::
  "nat \<Rightarrow> processEnv \<Rightarrow> googleGenAI \<Rightarrow> string \<Rightarrow> string \<Rightarrow> string
     \<Rightarrow> event list \<times> (js_thrown + string) option" where
  "generateAdVideoUpTo fuel env ai prompt0 base64Image mimeType0 =
     (case generateVideos (remote ai) (videoRequest prompt0 base64Image mimeType0) of
        Inl error \<Rightarrow> ([GenerateVideosCall], Some (Inl (videoCatch error)))
      | Inr operation0 \<Rightarrow>
          (case pollLoopUpTo fuel (getVideosOperation (remote ai)) 0 operation0
                  [GenerateVideosCall] of
             (tr, None) \<Rightarrow> (tr, None)
           | (tr, Some (Inl error)) \<Rightarrow> (tr, Some (Inl (videoCatch error)))
           | (tr, Some (Inr operation1)) \<Rightarrow>
               (case afterLoop env operation1 of
                  Inl error \<Rightarrow> (tr, Some (Inl (videoCatch error)))
                | Inr url \<Rightarrow> (tr, Some (Inr url)))))"

section \<open>The script on screen: AdDisplay\<close>

text \<open>
  The types of \<^verbatim>\<open>types.ts\<close>. \<^verbatim>\<open>sceneNumber\<close> is a JavaScript number; the schema asks the
  provider for an integer.
\<close>

record Scene =
  sceneNumber :: int
  setting :: string
  action :: string
  dialogue :: string
  sound :: string

record AdScript =
  title :: string
  tagline :: string
  scenes :: "Scene list"

text \<open>
  One scene card of AdDisplay: the element that the callback of
  \<^verbatim>\<open>adScript.scenes.map((scene) => ...)\<close> returns. It has the React key, the heading
  (the text \<^verbatim>\<open>SCENE\<close> followed by the number) and the four paragraphs in the order of
  the markup: setting, sound, action, dialogue.
\<close>

record sceneCard =
  cardKey :: int
  heading :: "string \<times> int"
  settingText :: string
  soundText :: string
  actionText :: string
  dialogueText :: string

definition renderScene :: "Scene \<Rightarrow> sceneCard" where
  "renderScene scene =
     \<lparr>cardKey = sceneNumber scene,
      heading = (''SCENE '', sceneNumber scene),
      settingText = setting scene,
      soundText = sound scene,
      actionText = action scene,
      dialogueText = dialogue scene\<rparr>"

definition sceneCards :: "AdScript \<Rightarrow> sceneCard list" where
  "sceneCards adScript0 = map renderScene (scenes adScript0)"

section \<open>The state of App and its reset handlers\<close>

record File =
  fileType :: string
  fileContents :: string

text \<open>
  The state variables of App, the timer id held in \<^verbatim>\<open>loadingIntervalRef.current\<close>, and
  the interval timers of the browser that are running (what \<^verbatim>\<open>setInterval\<close> adds to and
  \<^verbatim>\<open>clearInterval\<close> removes from).
\<close>

record appState =
  imageFile :: "File option"
  imagePreview :: "string option"
  productDescription :: string
  adScript :: "AdScript option"
  isLoading :: bool
  error :: "string option"
  isVideoLoading :: bool
  videoLoadingMessage :: string
  videoUrl :: "string option"
  videoError :: "string option"
  loadingIntervalRef :: "nat option"
  runningIntervals :: "nat set"













section \<open>Notions the statements below use\<close>

text \<open>
  What the caller of the poll loop holds after \<open>n\<close> status checks, when it starts with
  \<open>operation0\<close> and \<open>k\<close> checks were made before: the \<open>n\<close>-th polled response, or the
  thrown value when one of these checks threw. For \<open>n = 0\<close> it is the operation that
  \<^verbatim>\<open>generateVideos\<close> returned.
\<close>

fun operationAfter ::
  "(nat \<Rightarrow> operation \<Rightarrow> js_thrown + operation) \<Rightarrow> nat \<Rightarrow> operation \<Rightarrow> nat
     \<Rightarrow> js_thrown + operation" where
  "operationAfter getOp k operation0 0 = Inr operation0"
| "operationAfter getOp k operation0 (Suc n) =
     (case getOp k operation0 of
        Inl e \<Rightarrow> Inl e
      | Inr operation1 \<Rightarrow> operationAfter getOp (Suc k) operation1 n)"

text \<open>The first \<open>n\<close> responses, the initial one included, all came and none was complete.\<close>

definition pendingBefore ::
  "(nat \<Rightarrow> operation \<Rightarrow> js_thrown + operation) \<Rightarrow> operation \<Rightarrow> nat \<Rightarrow> bool" where
  "pendingBefore getOp operation0 n =
     list_all (\<lambda>j. case operationAfter getOp 0 operation0 j of
                      Inl e \<Rightarrow> False
                    | Inr operation1 \<Rightarrow> \<not> opDone operation1) [0..<n]"

text \<open>The trace of a run that made \<open>n\<close> status checks: one wait of 10000 ms before each.\<close>

definition pollTrace :: "nat \<Rightarrow> event list" where
  "pollTrace n = GenerateVideosCall # concat (replicate n [Sleep 10000, GetVideosOperationCall])"

text \<open>
  The total of the timer waits of a trace, in milliseconds, and the number of its
  status checks.
\<close>

fun elapsed :: "event list \<Rightarrow> nat" where
  "elapsed [] = 0"
| "elapsed (Sleep ms # tr) = ms + elapsed tr"
| "elapsed (ev # tr) = elapsed tr"

fun statusChecks :: "event list \<Rightarrow> nat" where
  "statusChecks [] = 0"
| "statusChecks (GetVideosOperationCall # tr) = Suc (statusChecks tr)"
| "statusChecks (ev # tr) = statusChecks tr"





text \<open>JSON values, for the parsed response of the script endpoint.\<close>

datatype json =
    JNull
  | JBool bool
  | JNumber int
  | JString string
  | JArray "json list"
  | JObject "(string \<times> json) list"

fun property :: "string \<Rightarrow> json \<Rightarrow> json option" where
  "property name (JObject props) = map_of props name"
| "property name other = None"

text \<open>
  The claim about scene numbers, in its own words: the value has an array \<open>scenes\<close>
  whose entries carry the \<open>sceneNumber\<close> values 1, 2, 3, ... in this order.
\<close>

definition scenesNumberedFrom1 :: "json \<Rightarrow> bool" where
  "scenesNumberedFrom1 v =
     (case property ''scenes'' v of
        Some (JArray ss) \<Rightarrow>
          map (property ''sceneNumber'') ss
            = map (\<lambda>i. Some (JNumber (int i))) [1..<Suc (length ss)]
      | _ \<Rightarrow> False)"

section \<open>Concrete inputs for the examples\<close>

text \<open>
  A provider that answers every request the same way: \<open>c\<close> to generateContent, \<open>v\<close> to
  generateVideos, and \<open>g k\<close> to the \<open>k\<close>-th status check.
\<close>

definition scriptedProvider ::
  "(js_thrown + generateContentResponse) \<Rightarrow> (js_thrown + operation)
     \<Rightarrow> (nat \<Rightarrow> js_thrown + operation) \<Rightarrow> provider" where
  "scriptedProvider c v g =
     \<lparr>generateContent = (\<lambda>request. c), generateVideos = (\<lambda>request. v),
      getVideosOperation = (\<lambda>k operation0. g k)\<rparr>"

definition clientOf :: "provider \<Rightarrow> googleGenAI" where
  "clientOf p = \<lparr>apiKey = ''k3y'', remote = p\<rparr>"

definition envWithKey :: processEnv where
  "envWithKey = \<lparr>API_KEY = Some ''k3y''\<rparr>"

text \<open>
  An engine whose \<^verbatim>\<open>JSON.parse\<close> is given on one text (where it returns \<open>v\<close>) and throws
  a SyntaxError with the message \<open>m\<close> on every other.
\<close>

definition parseOnly :: "string \<Rightarrow> 'v \<Rightarrow> string \<Rightarrow> string \<Rightarrow> string + 'v" where
  "parseOnly known v m s = (if s = known then Inr v else Inl m)"

definition pendingOperation :: operation where
  "pendingOperation = \<lparr>opDone = False, response = None\<rparr>"

definition doneWithoutResult :: operation where
  "doneWithoutResult = \<lparr>opDone = True, response = None\<rparr>"

definition doneWithLink :: "string \<Rightarrow> operation" where
  "doneWithLink link =
     \<lparr>opDone = True,
      response = Some \<lparr>generatedVideos = Some [Some \<lparr>video = Some \<lparr>uri = Some link\<rparr>\<rparr>]\<rparr>\<rparr>"

text \<open>
  Two response texts of the script endpoint and the values that \<^verbatim>\<open>JSON.parse\<close> gives
  for them. Both match the response schema; the first has one scene with the number 2,
  the second has the scenes 1 and 2.
\<close>

definition misnumberedText :: string where
  \<open>misnumberedText =
     ''{"title":"T","tagline":"G","scenes":[{"sceneNumber":2,"setting":"s","action":"a","dialogue":"None","sound":"m"}]}''\<close>

definition misnumberedScript :: json where
  "misnumberedScript =
     JObject
       [(''title'', JString ''T''), (''tagline'', JString ''G''),
        (''scenes'',
           JArray
             [JObject
                [(''sceneNumber'', JNumber 2), (''setting'', JString ''s''),
                 (''action'', JString ''a''), (''dialogue'', JString ''None''),
                 (''sound'', JString ''m'')]])]"

definition numberedText :: string where
  \<open>numberedText =
     ''{"title":"T","tagline":"G","scenes":[{"sceneNumber":1,"setting":"s","action":"a","dialogue":"None","sound":"m"},{"sceneNumber":2,"setting":"s","action":"b","dialogue":"VO: go","sound":"m"}]}''\<close>

definition numberedScript :: json where
  "numberedScript =
     JObject
       [(''title'', JString ''T''), (''tagline'', JString ''G''),
        (''scenes'',
           JArray
             [JObject
                [(''sceneNumber'', JNumber 1), (''setting'', JString ''s''),
                 (''action'', JString ''a''), (''dialogue'', JString ''None''),
                 (''sound'', JString ''m'')],
              JObject
                [(''sceneNumber'', JNumber 2), (''setting'', JString ''s''),
                 (''action'', JString ''b''), (''dialogue'', JString ''VO: go''),
                 (''sound'', JString ''m'')]])]"

text \<open>
  The message of the SyntaxError that V8 throws for \<^verbatim>\<open>JSON.parse("Error 429")\<close>: it
  quotes the start of the text it could not read.
\<close>

definition v8SyntaxErrorMessage :: string where
  \<open>v8SyntaxErrorMessage = ''Unexpected token 'E', "Error 429" is not valid JSON''\<close>

text \<open>The script of the scenario with the wireless headphones: three scenes.\<close>

definition headphonesScript :: AdScript where
  "headphonesScript =
     \<lparr>title = ''Unleash the Sound'', tagline = ''Your World, Your Music.'',
      scenes =
        [\<lparr>sceneNumber = 1, setting = ''A vibrant, sunlit city park.'',
          action = ''A runner puts the headphones on.'', dialogue = ''None'',
          sound = ''Upbeat music starts.''\<rparr>,
         \<lparr>sceneNumber = 2, setting = ''A crowded train.'',
          action = ''The noise of the train fades away.'', dialogue = ''VO: Silence the world.'',
          sound = ''Music swells.''\<rparr>,
         \<lparr>sceneNumber = 3, setting = ''A rooftop at dusk.'',
          action = ''Friends dance, the product in close-up.'', dialogue = ''VO: Your World, Your Music.'',
          sound = ''Final chord.''\<rparr>]\<rparr>"


text \<open>
  Three providers of a video generation that starts pending: one reports completion,
  with a download link, at the second status check; one fails the second status
  check; one stays pending for ever.
\<close>

definition slowProvider :: "string \<Rightarrow> provider" where
  "slowProvider link =
     scriptedProvider (Inl JsNonError) (Inr pendingOperation)
       (\<lambda>k. if k = 0 then Inr pendingOperation else Inr (doneWithLink link))"

definition failingProvider :: provider where
  "failingProvider =
     scriptedProvider (Inl JsNonError) (Inr pendingOperation)
       (\<lambda>k. if k = 0 then Inr pendingOperation else Inl (JsError ''fetch failed''))"

definition stuckProvider :: provider where
  "stuckProvider =
     scriptedProvider (Inl JsNonError) (Inr pendingOperation) (\<lambda>k. Inr pendingOperation)"

text \<open>
  A provider of a video generation that starts pending and answers every status check
  with an error.
\<close>

definition refusingProvider :: provider where
  "refusingProvider =
     scriptedProvider (Inl JsNonError) (Inr pendingOperation)
       (\<lambda>k. Inl (JsError ''503 Service Unavailable''))"

text \<open>A provider of the script endpoint alone: it answers generateContent with \<open>c\<close>.\<close>

definition scriptProvider :: "(js_thrown + generateContentResponse) \<Rightarrow> provider" where
  "scriptProvider c = scriptedProvider c (Inl JsNonError) (\<lambda>k. Inl JsNonError)"

section \<open>Strings\<close>

text \<open>\<open>str_includes\<close> is the substring test.\<close>

lemma str_includes_iff: "str_includes s sub \<longleftrightarrow> (\<exists>p q. s = p @ sub @ q)"
proof (induction s)
  case Nil
  then show ?case by auto
next
  case (Cons c cs)
  show ?case
  proof
    assume "str_includes (c # cs) sub"
    then consider "prefix sub (c # cs)" | "str_includes cs sub" by auto
    then show "\<exists>p q. c # cs = p @ sub @ q"
    proof cases
      case 1
      then obtain q where "c # cs = sub @ q" by (auto simp: prefix_def)
      then have "c # cs = [] @ sub @ q" by simp
      then show ?thesis by blast
    next
      case 2
      with Cons.IH obtain p q where "cs = p @ sub @ q" by blast
      then have "c # cs = (c # p) @ sub @ q" by simp
      then show ?thesis by blast
    qed
  next
    assume "\<exists>p q. c # cs = p @ sub @ q"
    then obtain p q where pq: "c # cs = p @ sub @ q" by blast
    show "str_includes (c # cs) sub"
    proof (cases p)
      case Nil
      with pq have "prefix sub (c # cs)" by (simp add: prefix_def)
      then show ?thesis by simp
    next
      case (Cons a p')
      with pq have "cs = p' @ sub @ q" by simp
      with Cons.IH have "str_includes cs sub" by blast
      then show ?thesis by simp
    qed
  qed
qed

lemma messages_distinct:
  "rateLimitMessage \<noteq> scriptFailedMessage"
  "quotaMessage \<noteq> videoFailedMessage"
  "missingLinkMessage \<noteq> videoFailedMessage"
  "missingLinkMessage \<noteq> quotaMessage"
  by (simp_all add: rateLimitMessage_def scriptFailedMessage_def quotaMessage_def
      videoFailedMessage_def missingLinkMessage_def)

lemma missingLink_not_quota:
  "videoCatch (JsError missingLinkMessage) = JsError videoFailedMessage"
  by (simp add: videoCatch_def missingLinkMessage_def)

section \<open>Query parameters\<close>






section \<open>The poll loop\<close>

lemma pendingBefore_iff:
  "pendingBefore g op0 n
     \<longleftrightarrow> (\<forall>j<n. \<exists>op. operationAfter g 0 op0 j = Inr op \<and> \<not> opDone op)"
proof -
  have "(case x of Inl e \<Rightarrow> False | Inr op \<Rightarrow> \<not> opDone op)
          \<longleftrightarrow> (\<exists>op. x = Inr op \<and> \<not> opDone op)" for x :: "js_thrown + operation"
    by (cases x) auto
  then show ?thesis by (auto simp add: pendingBefore_def list_all_iff)
qed

text \<open>
  When the first \<open>n\<close> responses are pending and the \<open>n\<close>-th check throws or reports
  completion, the loop stops there, after \<open>n\<close> waits and \<open>n\<close> checks.
\<close>

lemma pollLoop_exit:
  "(\<forall>j<n. \<exists>op'. operationAfter g k op j = Inr op' \<and> \<not> opDone op')
   \<Longrightarrow> (case operationAfter g k op n of Inl e \<Rightarrow> True | Inr op' \<Rightarrow> opDone op')
   \<Longrightarrow> pollLoop g k op tr
        = Some (tr @ concat (replicate n [Sleep 10000, GetVideosOperationCall]),
                operationAfter g k op n)"
proof (induction n arbitrary: k op tr)
  case 0
  then show ?case by (simp add: pollLoop.simps)
next
  case (Suc n)
  from Suc.prems(1) have nd: "\<not> opDone op" by fastforce
  show ?case
  proof (cases "g k op")
    case (Inl e)
    have "n = 0"
    proof (rule ccontr)
      assume "n \<noteq> 0"
      then have "Suc 0 < Suc n" by simp
      with Suc.prems(1) obtain op' where "operationAfter g k op (Suc 0) = Inr op'" by blast
      with Inl show False by simp
    qed
    with Inl nd show ?thesis by (simp add: pollLoop.simps)
  next
    case (Inr op1)
    have p1: "\<forall>j<n. \<exists>op'. operationAfter g (Suc k) op1 j = Inr op' \<and> \<not> opDone op'"
    proof (intro allI impI)
      fix j assume "j < n"
      then have "Suc j < Suc n" by simp
      with Suc.prems(1) obtain op' where "operationAfter g k op (Suc j) = Inr op' \<and> \<not> opDone op'"
        by blast
      with Inr show "\<exists>op'. operationAfter g (Suc k) op1 j = Inr op' \<and> \<not> opDone op'" by simp
    qed
    from Suc.prems(2) Inr
    have p2: "case operationAfter g (Suc k) op1 n of Inl e \<Rightarrow> True | Inr op' \<Rightarrow> opDone op'"
      by simp
    from Suc.IH [OF p1 p2, of "tr @ [Sleep 10000, GetVideosOperationCall]"] Inr nd
    show ?thesis by (subst pollLoop.simps) simp
  qed
qed

text \<open>A loop that returns has met such an exit.\<close>

lemma pollLoop_returns_exit:
  assumes "pollLoop g k op tr = Some y"
  shows "\<exists>n. (\<forall>j<n. \<exists>op'. operationAfter g k op j = Inr op' \<and> \<not> opDone op')
             \<and> (case operationAfter g k op n of Inl e \<Rightarrow> True | Inr op' \<Rightarrow> opDone op')"
proof (rule pollLoop.raw_induct
    [where P = "\<lambda>g k op tr y. \<exists>n. (\<forall>j<n. \<exists>op'. operationAfter g k op j = Inr op' \<and> \<not> opDone op')
             \<and> (case operationAfter g k op n of Inl e \<Rightarrow> True | Inr op' \<Rightarrow> opDone op')",
     OF _ assms], goal_cases)
  case (1 f g k op tr y)
  show ?case
  proof (cases "opDone op")
    case True
    then have "(\<forall>j<0. \<exists>op'. operationAfter g k op j = Inr op' \<and> \<not> opDone op')
             \<and> (case operationAfter g k op 0 of Inl e \<Rightarrow> True | Inr op' \<Rightarrow> opDone op')"
      by simp
    then show ?thesis by blast
  next
    case nd: False
    show ?thesis
    proof (cases "g k op")
      case (Inl e)
      with nd have "(\<forall>j<Suc 0. \<exists>op'. operationAfter g k op j = Inr op' \<and> \<not> opDone op')
             \<and> (case operationAfter g k op (Suc 0) of Inl e \<Rightarrow> True | Inr op' \<Rightarrow> opDone op')"
        by simp
      then show ?thesis by blast
    next
      case (Inr op1)
      with nd 1(2) have "f g (Suc k) op1 (tr @ [Sleep 10000, GetVideosOperationCall]) = Some y"
        by simp
      from 1(1) [OF this] obtain n where
        n: "\<forall>j<n. \<exists>op'. operationAfter g (Suc k) op1 j = Inr op' \<and> \<not> opDone op'"
           "case operationAfter g (Suc k) op1 n of Inl e \<Rightarrow> True | Inr op' \<Rightarrow> opDone op'"
        by blast
      have "\<forall>j<Suc n. \<exists>op'. operationAfter g k op j = Inr op' \<and> \<not> opDone op'"
      proof (intro allI impI)
        fix j assume "j < Suc n"
        show "\<exists>op'. operationAfter g k op j = Inr op' \<and> \<not> opDone op'"
        proof (cases j)
          case 0
          with nd show ?thesis by simp
        next
          case (Suc i)
          with \<open>j < Suc n\<close> have "i < n" by simp
          with n(1) Inr Suc show ?thesis by simp
        qed
      qed
      moreover from n(2) Inr
      have "case operationAfter g k op (Suc n) of Inl e \<Rightarrow> True | Inr op' \<Rightarrow> opDone op'"
        by simp
      ultimately show ?thesis by blast
    qed
  qed
qed

lemma pollLoop_returns:
  assumes "pollLoop g 0 op0 [GenerateVideosCall] = Some (tr, r)"
  shows "\<exists>n. pendingBefore g op0 n \<and> tr = pollTrace n \<and> r = operationAfter g 0 op0 n
             \<and> (case r of Inl e \<Rightarrow> True | Inr op' \<Rightarrow> opDone op')"
proof -
  from pollLoop_returns_exit [OF assms] obtain n where
    n: "\<forall>j<n. \<exists>op'. operationAfter g 0 op0 j = Inr op' \<and> \<not> opDone op'"
       "case operationAfter g 0 op0 n of Inl e \<Rightarrow> True | Inr op' \<Rightarrow> opDone op'"
    by blast
  from pollLoop_exit [OF n, of "[GenerateVideosCall]"] assms
  have "tr = pollTrace n" "r = operationAfter g 0 op0 n"
    by (simp_all add: pollTrace_def)
  with n show ?thesis by (auto simp: pendingBefore_iff)
qed

text \<open>When every response comes and none is complete, the loop never returns.\<close>

lemma pollLoop_never:
  assumes "\<forall>n. pendingBefore g op0 n"
  shows "pollLoop g 0 op0 tr = None"
proof (cases "pollLoop g 0 op0 tr")
  case None
  then show ?thesis .
next
  case (Some y)
  from pollLoop_returns_exit [OF Some] obtain n where
    "case operationAfter g 0 op0 n of Inl e \<Rightarrow> True | Inr op' \<Rightarrow> opDone op'" by blast
  moreover from assms have "pendingBefore g op0 (Suc n)" by blast
  then obtain op' where "operationAfter g 0 op0 n = Inr op' \<and> \<not> opDone op'"
    unfolding pendingBefore_iff by blast
  ultimately show ?thesis by simp
qed

text \<open>A run is pending for ever, or it meets an exit after finitely many checks.\<close>

lemma pendingBefore_Suc:
  "pendingBefore g op0 (Suc n)
     \<longleftrightarrow> pendingBefore g op0 n
         \<and> (case operationAfter g 0 op0 n of Inl e \<Rightarrow> False | Inr op \<Rightarrow> \<not> opDone op)"
  by (simp add: pendingBefore_def)

lemma not_pending_exit:
  "\<not> pendingBefore g op0 m
   \<Longrightarrow> \<exists>n. pendingBefore g op0 n
           \<and> (case operationAfter g 0 op0 n of Inl e \<Rightarrow> True | Inr op \<Rightarrow> opDone op)"
proof (induction m)
  case 0
  then show ?case by (simp add: pendingBefore_def)
next
  case (Suc m)
  show ?case
  proof (cases "pendingBefore g op0 m")
    case True
    with Suc.prems
    have "case operationAfter g 0 op0 m of Inl e \<Rightarrow> True | Inr op \<Rightarrow> opDone op"
      by (auto simp: pendingBefore_Suc split: sum.splits)
    with True show ?thesis by blast
  next
    case False
    then show ?thesis by (rule Suc.IH)
  qed
qed

lemma elapsed_pollTrace: "elapsed (pollTrace n) = 10000 * n"
  by (induction n) (simp_all add: pollTrace_def)

lemma statusChecks_pollTrace: "statusChecks (pollTrace n) = n"
  by (induction n) (simp_all add: pollTrace_def)

lemma generateAdVideo_exit:
  assumes gv: "generateVideos (remote ai) (videoRequest pr img mt) = Inr op0"
    and pend: "pendingBefore (getVideosOperation (remote ai)) op0 n"
    and ex: "case operationAfter (getVideosOperation (remote ai)) 0 op0 n of
               Inl e \<Rightarrow> True | Inr op' \<Rightarrow> opDone op'"
  shows "generateAdVideo env ai pr img mt
     = Some (pollTrace n,
             case operationAfter (getVideosOperation (remote ai)) 0 op0 n of
               Inl e \<Rightarrow> Inl (videoCatch e)
             | Inr op \<Rightarrow> (case afterLoop env op of
                            Inl e \<Rightarrow> Inl (videoCatch e) | Inr url \<Rightarrow> Inr url))"
proof -
  from pend have "\<forall>j<n. \<exists>op'. operationAfter (getVideosOperation (remote ai)) 0 op0 j = Inr op'
      \<and> \<not> opDone op'"
    by (simp add: pendingBefore_iff)
  from pollLoop_exit [OF this ex, of "[GenerateVideosCall]"]
  have "pollLoop (getVideosOperation (remote ai)) 0 op0 [GenerateVideosCall]
      = Some (pollTrace n, operationAfter (getVideosOperation (remote ai)) 0 op0 n)"
    by (simp add: pollTrace_def)
  with gv show ?thesis
    by (simp add: generateAdVideo_def split: sum.splits)
qed

lemma generateAdVideo_returns:
  assumes "generateAdVideo env ai pr img mt = Some (tr, r)"
  shows "\<exists>n. tr = pollTrace n"
proof (cases "generateVideos (remote ai) (videoRequest pr img mt)")
  case (Inl e)
  with assms have "tr = pollTrace 0" by (simp add: generateAdVideo_def pollTrace_def)
  then show ?thesis ..
next
  case (Inr op0)
  with assms obtain r' where
    "pollLoop (getVideosOperation (remote ai)) 0 op0 [GenerateVideosCall] = Some (tr, r')"
    by (auto simp: generateAdVideo_def split: option.splits sum.splits)
  from pollLoop_returns [OF this] show ?thesis by blast
qed

text \<open>The watched loop agrees with the loop.\<close>

lemma pollLoopUpTo_pending:
  "(\<forall>j<Suc n. \<exists>op'. operationAfter g k op j = Inr op' \<and> \<not> opDone op')
   \<Longrightarrow> pollLoopUpTo n g k op tr
        = (tr @ concat (replicate n [Sleep 10000, GetVideosOperationCall]), None)"
proof (induction n arbitrary: k op tr)
  case 0
  then show ?case by simp
next
  case (Suc n)
  from Suc.prems have nd: "\<not> opDone op" by fastforce
  have "Suc 0 < Suc (Suc n)" by simp
  with Suc.prems obtain op1 where "operationAfter g k op (Suc 0) = Inr op1" by blast
  then have g: "g k op = Inr op1" by (simp split: sum.splits)
  have "\<forall>j<Suc n. \<exists>op'. operationAfter g (Suc k) op1 j = Inr op' \<and> \<not> opDone op'"
  proof (intro allI impI)
    fix j assume "j < Suc n"
    then have "Suc j < Suc (Suc n)" by simp
    with Suc.prems obtain op' where "operationAfter g k op (Suc j) = Inr op' \<and> \<not> opDone op'"
      by blast
    with g show "\<exists>op'. operationAfter g (Suc k) op1 j = Inr op' \<and> \<not> opDone op'" by simp
  qed
  from Suc.IH [OF this, of "tr @ [Sleep 10000, GetVideosOperationCall]"] nd g
  show ?case by simp
qed

lemma pollLoopUpTo_exit:
  "(\<forall>j<n. \<exists>op'. operationAfter g k op j = Inr op' \<and> \<not> opDone op')
   \<Longrightarrow> (case operationAfter g k op n of Inl e \<Rightarrow> True | Inr op' \<Rightarrow> opDone op')
   \<Longrightarrow> n \<le> fuel
   \<Longrightarrow> pollLoopUpTo fuel g k op tr
        = (tr @ concat (replicate n [Sleep 10000, GetVideosOperationCall]),
           Some (operationAfter g k op n))"
proof (induction n arbitrary: fuel k op tr)
  case 0
  then show ?case by (cases fuel) simp_all
next
  case (Suc n)
  from Suc.prems(1) have nd: "\<not> opDone op" by fastforce
  from Suc.prems(3) obtain fuel' where fuel: "fuel = Suc fuel'" "n \<le> fuel'"
    by (cases fuel) simp_all
  show ?case
  proof (cases "g k op")
    case (Inl e)
    have "n = 0"
    proof (rule ccontr)
      assume "n \<noteq> 0"
      then have "Suc 0 < Suc n" by simp
      with Suc.prems(1) obtain op' where "operationAfter g k op (Suc 0) = Inr op'" by blast
      with Inl show False by simp
    qed
    with Inl nd fuel show ?thesis by simp
  next
    case (Inr op1)
    have p1: "\<forall>j<n. \<exists>op'. operationAfter g (Suc k) op1 j = Inr op' \<and> \<not> opDone op'"
    proof (intro allI impI)
      fix j assume "j < n"
      then have "Suc j < Suc n" by simp
      with Suc.prems(1) obtain op' where "operationAfter g k op (Suc j) = Inr op' \<and> \<not> opDone op'"
        by blast
      with Inr show "\<exists>op'. operationAfter g (Suc k) op1 j = Inr op' \<and> \<not> opDone op'" by simp
    qed
    from Suc.prems(2) Inr
    have p2: "case operationAfter g (Suc k) op1 n of Inl e \<Rightarrow> True | Inr op' \<Rightarrow> opDone op'"
      by simp
    from Suc.IH [OF p1 p2 fuel(2), of "tr @ [Sleep 10000, GetVideosOperationCall]"] Inr nd fuel
    show ?thesis by simp
  qed
qed

lemma not_pending_exit_before:
  "\<not> pendingBefore g op0 m
   \<Longrightarrow> \<exists>n<m. pendingBefore g op0 n
           \<and> (case operationAfter g 0 op0 n of Inl e \<Rightarrow> True | Inr op \<Rightarrow> opDone op)"
proof (induction m)
  case 0
  then show ?case by (simp add: pendingBefore_def)
next
  case (Suc m)
  show ?case
  proof (cases "pendingBefore g op0 m")
    case True
    with Suc.prems
    have "case operationAfter g 0 op0 m of Inl e \<Rightarrow> True | Inr op \<Rightarrow> opDone op"
      by (auto simp: pendingBefore_Suc split: sum.splits)
    with True show ?thesis by blast
  next
    case False
    from Suc.IH [OF this] show ?thesis by (auto intro: less_SucI)
  qed
qed

text \<open>
  What the watched loop has done after \<open>fuel\<close> iterations: it is still running after
  \<open>fuel\<close> waits and checks, or it has ended after at most that many.
\<close>

lemma pollLoopUpTo_cases:
  "(pendingBefore g op0 (Suc fuel)
      \<and> pollLoopUpTo fuel g 0 op0 [GenerateVideosCall] = (pollTrace fuel, None))
   \<or> (\<exists>n\<le>fuel. pendingBefore g op0 n
         \<and> (case operationAfter g 0 op0 n of Inl e \<Rightarrow> True | Inr op \<Rightarrow> opDone op)
         \<and> pollLoopUpTo fuel g 0 op0 [GenerateVideosCall]
             = (pollTrace n, Some (operationAfter g 0 op0 n)))"
proof (cases "pendingBefore g op0 (Suc fuel)")
  case True
  then have "\<forall>j<Suc fuel. \<exists>op'. operationAfter g 0 op0 j = Inr op' \<and> \<not> opDone op'"
    by (simp add: pendingBefore_iff)
  from pollLoopUpTo_pending [OF this, of "[GenerateVideosCall]"] True
  show ?thesis by (simp add: pollTrace_def)
next
  case False
  from not_pending_exit_before [OF this] obtain n where
    n: "n < Suc fuel" "pendingBefore g op0 n"
       "case operationAfter g 0 op0 n of Inl e \<Rightarrow> True | Inr op \<Rightarrow> opDone op"
    by blast
  from n(2) have "\<forall>j<n. \<exists>op'. operationAfter g 0 op0 j = Inr op' \<and> \<not> opDone op'"
    by (simp add: pendingBefore_iff)
  from pollLoopUpTo_exit [OF this n(3), of fuel "[GenerateVideosCall]"] n(1)
  have "pollLoopUpTo fuel g 0 op0 [GenerateVideosCall]
      = (pollTrace n, Some (operationAfter g 0 op0 n))"
    by (simp add: pollTrace_def)
  moreover from n(1) have "n \<le> fuel" by simp
  ultimately have "\<exists>n\<le>fuel. pendingBefore g op0 n
         \<and> (case operationAfter g 0 op0 n of Inl e \<Rightarrow> True | Inr op \<Rightarrow> opDone op)
         \<and> pollLoopUpTo fuel g 0 op0 [GenerateVideosCall]
             = (pollTrace n, Some (operationAfter g 0 op0 n))"
    using n(2,3) by blast
  then show ?thesis ..
qed

lemma generateAdVideoUpTo_trace:
  "\<exists>n\<le>fuel. fst (generateAdVideoUpTo fuel env ai pr img mt) = pollTrace n"
proof (cases "generateVideos (remote ai) (videoRequest pr img mt)")
  case (Inl e)
  then have "fst (generateAdVideoUpTo fuel env ai pr img mt) = pollTrace 0"
    by (simp add: generateAdVideoUpTo_def pollTrace_def)
  then show ?thesis by blast
next
  case (Inr op0)
  from pollLoopUpTo_cases [of "getVideosOperation (remote ai)" op0 fuel]
  obtain n x where "n \<le> fuel"
    "pollLoopUpTo fuel (getVideosOperation (remote ai)) 0 op0 [GenerateVideosCall]
       = (pollTrace n, x)"
    by auto
  with Inr have "fst (generateAdVideoUpTo fuel env ai pr img mt) = pollTrace n"
    by (simp add: generateAdVideoUpTo_def split: option.splits sum.splits)
  with \<open>n \<le> fuel\<close> show ?thesis by blast
qed

lemma generateAdVideoUpTo_pending:
  assumes gv: "generateVideos (remote ai) (videoRequest pr img mt) = Inr op0"
    and pend: "pendingBefore (getVideosOperation (remote ai)) op0 (Suc fuel)"
  shows "generateAdVideoUpTo fuel env ai pr img mt = (pollTrace fuel, None)"
proof -
  from pend have "\<forall>j<Suc fuel. \<exists>op'.
      operationAfter (getVideosOperation (remote ai)) 0 op0 j = Inr op' \<and> \<not> opDone op'"
    by (simp add: pendingBefore_iff)
  from pollLoopUpTo_pending [OF this, of "[GenerateVideosCall]"] gv
  show ?thesis by (simp add: generateAdVideoUpTo_def pollTrace_def)
qed

lemma generateAdVideoUpTo_exit:
  assumes gv: "generateVideos (remote ai) (videoRequest pr img mt) = Inr op0"
    and pend: "pendingBefore (getVideosOperation (remote ai)) op0 n"
    and ex: "case operationAfter (getVideosOperation (remote ai)) 0 op0 n of
               Inl e \<Rightarrow> True | Inr op' \<Rightarrow> opDone op'"
    and le: "n \<le> fuel"
  shows "generateAdVideoUpTo fuel env ai pr img mt
     = (pollTrace n,
        Some (case operationAfter (getVideosOperation (remote ai)) 0 op0 n of
                Inl e \<Rightarrow> Inl (videoCatch e)
              | Inr op \<Rightarrow> (case afterLoop env op of
                             Inl e \<Rightarrow> Inl (videoCatch e) | Inr url \<Rightarrow> Inr url)))"
proof -
  from pend have "\<forall>j<n. \<exists>op'. operationAfter (getVideosOperation (remote ai)) 0 op0 j = Inr op'
      \<and> \<not> opDone op'"
    by (simp add: pendingBefore_iff)
  from pollLoopUpTo_exit [OF this ex le, of "[GenerateVideosCall]"]
  have "pollLoopUpTo fuel (getVideosOperation (remote ai)) 0 op0 [GenerateVideosCall]
      = (pollTrace n, Some (operationAfter (getVideosOperation (remote ai)) 0 op0 n))"
    by (simp add: pollTrace_def)
  with gv show ?thesis
    by (simp add: generateAdVideoUpTo_def split: sum.splits)
qed

text \<open>The call returns exactly what the watched call shows for some \<open>fuel\<close>.\<close>

lemma generateAdVideo_watched:
  "(generateAdVideo env ai pr img mt = Some (tr, r))
     = (\<exists>fuel. generateAdVideoUpTo fuel env ai pr img mt = (tr, Some r))"
proof (cases "generateVideos (remote ai) (videoRequest pr img mt)")
  case (Inl e)
  then show ?thesis
    by (auto simp: generateAdVideo_def generateAdVideoUpTo_def)
next
  case (Inr op0)
  let ?g = "getVideosOperation (remote ai)"
  show ?thesis
  proof (cases "\<forall>m. pendingBefore ?g op0 m")
    case True
    from pollLoop_never [OF True] Inr have "generateAdVideo env ai pr img mt = None"
      by (simp add: generateAdVideo_def)
    moreover have "generateAdVideoUpTo fuel env ai pr img mt = (pollTrace fuel, None)" for fuel
      using generateAdVideoUpTo_pending [OF Inr] True by blast
    ultimately show ?thesis by simp
  next
    case False
    then obtain m where "\<not> pendingBefore ?g op0 m" by blast
    from not_pending_exit [OF this] obtain n where
      n: "pendingBefore ?g op0 n"
         "case operationAfter ?g 0 op0 n of Inl e \<Rightarrow> True | Inr op \<Rightarrow> opDone op"
      by blast
    let ?out = "case operationAfter ?g 0 op0 n of
                  Inl e \<Rightarrow> Inl (videoCatch e)
                | Inr op \<Rightarrow> (case afterLoop env op of
                               Inl e \<Rightarrow> Inl (videoCatch e) | Inr url \<Rightarrow> Inr url)"
    have a: "generateAdVideo env ai pr img mt = Some (pollTrace n, ?out)"
      by (rule generateAdVideo_exit [OF Inr n])
    have b: "generateAdVideoUpTo fuel env ai pr img mt = (pollTrace n, Some ?out)"
      if "n \<le> fuel" for fuel
      by (rule generateAdVideoUpTo_exit [OF Inr n that])
    have c: "snd (generateAdVideoUpTo fuel env ai pr img mt) = None" if "fuel < n" for fuel
    proof -
      from that have "Suc fuel \<le> n" by simp
      with n(1) have "pendingBefore ?g op0 (Suc fuel)"
        by (auto simp: pendingBefore_iff)
      from generateAdVideoUpTo_pending [OF Inr this] show ?thesis by simp
    qed
    show ?thesis
    proof
      assume "generateAdVideo env ai pr img mt = Some (tr, r)"
      with a have "tr = pollTrace n" "r = ?out" by simp_all
      with b [of n] show "\<exists>fuel. generateAdVideoUpTo fuel env ai pr img mt = (tr, Some r)"
        by auto
    next
      assume "\<exists>fuel. generateAdVideoUpTo fuel env ai pr img mt = (tr, Some r)"
      then obtain fuel where f: "generateAdVideoUpTo fuel env ai pr img mt = (tr, Some r)" ..
      have "n \<le> fuel"
      proof (rule ccontr)
        assume "\<not> n \<le> fuel"
        then have "fuel < n" by simp
        from c [OF this] f show False by simp
      qed
      from b [OF this] f have "tr = pollTrace n" "r = ?out" by simp_all
      with a show "generateAdVideo env ai pr img mt = Some (tr, r)" by simp
    qed
  qed
qed

section \<open>Claims about generateAdVideo\<close>

text \<open>
  C1, as the claim states it, fails: a status check that throws ends the loop although
  no response ever reported completion. Here generateVideos returns a pending
  operation and the first status check is answered with an error: the call returns
  after one wait and one check, with the generic failure.
\<close>

theorem poll_loop_ends_on_failed_check_counterexample:
  "generateVideos (remote (clientOf refusingProvider))
       (videoRequest ''prompt'' ''iVBORw0KGgo='' ''image/png'') = Inr pendingOperation
   \<and> (\<nexists>n op. operationAfter (getVideosOperation (remote (clientOf refusingProvider))) 0
                 pendingOperation n = Inr op \<and> opDone op)
   \<and> generateAdVideo envWithKey (clientOf refusingProvider)
         ''prompt'' ''iVBORw0KGgo='' ''image/png''
       = Some ([GenerateVideosCall, Sleep 10000, GetVideosOperationCall],
               Inl (JsError videoFailedMessage))"
proof (intro conjI)
  show "generateVideos (remote (clientOf refusingProvider))
       (videoRequest ''prompt'' ''iVBORw0KGgo='' ''image/png'') = Inr pendingOperation"
    by (simp add: clientOf_def refusingProvider_def scriptedProvider_def)
  have g: "getVideosOperation (remote (clientOf refusingProvider))
      = (\<lambda>k operation0. Inl (JsError ''503 Service Unavailable''))"
    by (simp add: clientOf_def refusingProvider_def scriptedProvider_def)
  have "operationAfter (\<lambda>k operation0. Inl (JsError ''503 Service Unavailable'')) 0
          pendingOperation n = Inr op \<Longrightarrow> \<not> opDone op" for n op
    by (cases n) (auto simp: pendingOperation_def)
  then show "\<nexists>n op. operationAfter (getVideosOperation (remote (clientOf refusingProvider))) 0
                 pendingOperation n = Inr op \<and> opDone op"
    unfolding g by blast
  show "generateAdVideo envWithKey (clientOf refusingProvider)
         ''prompt'' ''iVBORw0KGgo='' ''image/png''
       = Some ([GenerateVideosCall, Sleep 10000, GetVideosOperationCall],
               Inl (JsError videoFailedMessage))"
    by (simp add: generateAdVideo_def clientOf_def refusingProvider_def scriptedProvider_def
        pendingOperation_def pollLoop.simps videoCatch_def)
qed

text \<open>
  C1, amended. In every execution of generateAdVideo, whether or not it ever returns,
  exactly one status check is issued per wait of 10000 ms: at every point of the run
  the calls made so far are generateVideos and then, some number of times, a wait
  followed by a status check. When generateVideos returned an operation: the loop ends
  at the first polled response that reports completion, or at the first status check
  that throws, whichever comes first, after as many waits and checks as that takes;
  and the call never returns exactly when every status check returns and no response
  reports completion, in which case the loop is still running after any number of
  waits and checks.
\<close>

theorem poll_loop_exits:
  "(elapsed (fst (generateAdVideoUpTo fuel env ai pr img mt))
       = 10000 * statusChecks (fst (generateAdVideoUpTo fuel env ai pr img mt))
     \<and> fst (generateAdVideoUpTo fuel env ai pr img mt)
       = pollTrace (statusChecks (fst (generateAdVideoUpTo fuel env ai pr img mt)))
     \<and> statusChecks (fst (generateAdVideoUpTo fuel env ai pr img mt)) \<le> fuel)
   \<and> (generateAdVideo env ai pr img mt = Some (tr, r))
       = (\<exists>steps. generateAdVideoUpTo steps env ai pr img mt = (tr, Some r))
   \<and> (generateAdVideo env ai pr img mt = Some (tr, r)
      \<longrightarrow> elapsed tr = 10000 * statusChecks tr \<and> tr = pollTrace (statusChecks tr))
   \<and> (generateVideos (remote ai) (videoRequest pr img mt) = Inr op0
      \<longrightarrow> (pendingBefore (getVideosOperation (remote ai)) op0 n
             \<and> operationAfter (getVideosOperation (remote ai)) 0 op0 n = Inr op \<and> opDone op
           \<longrightarrow> generateAdVideo env ai pr img mt
                 = Some (pollTrace n,
                         case afterLoop env op of
                           Inl e \<Rightarrow> Inl (videoCatch e) | Inr url \<Rightarrow> Inr url))
        \<and> (pendingBefore (getVideosOperation (remote ai)) op0 n
             \<and> operationAfter (getVideosOperation (remote ai)) 0 op0 n = Inl e
           \<longrightarrow> generateAdVideo env ai pr img mt = Some (pollTrace n, Inl (videoCatch e)))
        \<and> (generateAdVideo env ai pr img mt = None)
            = (\<forall>m. pendingBefore (getVideosOperation (remote ai)) op0 m)
        \<and> ((\<forall>m. pendingBefore (getVideosOperation (remote ai)) op0 m)
           \<longrightarrow> generateAdVideoUpTo fuel env ai pr img mt = (pollTrace fuel, None)))"
proof (intro conjI impI)
  from generateAdVideoUpTo_trace [of fuel env ai pr img mt] obtain k where
    k: "k \<le> fuel" "fst (generateAdVideoUpTo fuel env ai pr img mt) = pollTrace k"
    by blast
  from k(2) show "elapsed (fst (generateAdVideoUpTo fuel env ai pr img mt))
       = 10000 * statusChecks (fst (generateAdVideoUpTo fuel env ai pr img mt))"
    by (simp add: elapsed_pollTrace statusChecks_pollTrace)
  from k(2) show "fst (generateAdVideoUpTo fuel env ai pr img mt)
       = pollTrace (statusChecks (fst (generateAdVideoUpTo fuel env ai pr img mt)))"
    by (simp add: statusChecks_pollTrace)
  from k show "statusChecks (fst (generateAdVideoUpTo fuel env ai pr img mt)) \<le> fuel"
    by (simp add: statusChecks_pollTrace)
next
  show "(generateAdVideo env ai pr img mt = Some (tr, r))
       = (\<exists>steps. generateAdVideoUpTo steps env ai pr img mt = (tr, Some r))"
    by (rule generateAdVideo_watched)
next
  assume "generateAdVideo env ai pr img mt = Some (tr, r)"
  from generateAdVideo_returns [OF this] obtain k where k: "tr = pollTrace k" ..
  then show "elapsed tr = 10000 * statusChecks tr"
    by (simp add: elapsed_pollTrace statusChecks_pollTrace)
  from k show "tr = pollTrace (statusChecks tr)"
    by (simp add: statusChecks_pollTrace)
next
  assume gv: "generateVideos (remote ai) (videoRequest pr img mt) = Inr op0"
    and h: "pendingBefore (getVideosOperation (remote ai)) op0 n
             \<and> operationAfter (getVideosOperation (remote ai)) 0 op0 n = Inr op \<and> opDone op"
  from generateAdVideo_exit [OF gv, of n env] h
  show "generateAdVideo env ai pr img mt
          = Some (pollTrace n,
                  case afterLoop env op of Inl e \<Rightarrow> Inl (videoCatch e) | Inr url \<Rightarrow> Inr url)"
    by simp
next
  assume gv: "generateVideos (remote ai) (videoRequest pr img mt) = Inr op0"
    and h: "pendingBefore (getVideosOperation (remote ai)) op0 n
             \<and> operationAfter (getVideosOperation (remote ai)) 0 op0 n = Inl e"
  from generateAdVideo_exit [OF gv, of n env] h
  show "generateAdVideo env ai pr img mt = Some (pollTrace n, Inl (videoCatch e))"
    by simp
next
  assume gv: "generateVideos (remote ai) (videoRequest pr img mt) = Inr op0"
  show "(generateAdVideo env ai pr img mt = None)
      = (\<forall>m. pendingBefore (getVideosOperation (remote ai)) op0 m)"
  proof
    assume none: "generateAdVideo env ai pr img mt = None"
    show "\<forall>m. pendingBefore (getVideosOperation (remote ai)) op0 m"
    proof (rule ccontr)
      assume "\<not> (\<forall>m. pendingBefore (getVideosOperation (remote ai)) op0 m)"
      then obtain m where "\<not> pendingBefore (getVideosOperation (remote ai)) op0 m" by blast
      from not_pending_exit [OF this] obtain n where
        "pendingBefore (getVideosOperation (remote ai)) op0 n"
        "case operationAfter (getVideosOperation (remote ai)) 0 op0 n of
           Inl e \<Rightarrow> True | Inr op \<Rightarrow> opDone op"
        by blast
      from generateAdVideo_exit [OF gv this, of env] none show False by simp
    qed
  next
    assume h: "\<forall>m. pendingBefore (getVideosOperation (remote ai)) op0 m"
    from pollLoop_never [OF h] gv
    show "generateAdVideo env ai pr img mt = None"
      by (simp add: generateAdVideo_def)
  qed
next
  assume gv: "generateVideos (remote ai) (videoRequest pr img mt) = Inr op0"
    and h: "\<forall>m. pendingBefore (getVideosOperation (remote ai)) op0 m"
  from h have "pendingBefore (getVideosOperation (remote ai)) op0 (Suc fuel)" by blast
  from generateAdVideoUpTo_pending [OF gv this]
  show "generateAdVideoUpTo fuel env ai pr img mt = (pollTrace fuel, None)" .
qed

theorem poll_loop_exits_witness:
  "generateAdVideo envWithKey (clientOf (slowProvider ''https://files.test/v1:download?alt=media''))
       ''prompt'' ''iVBORw0KGgo='' ''image/png''
     = Some ([GenerateVideosCall, Sleep 10000, GetVideosOperationCall,
              Sleep 10000, GetVideosOperationCall],
             Inr ''https://files.test/v1:download?alt=media&key=k3y'')
   \<and> elapsed [GenerateVideosCall, Sleep 10000, GetVideosOperationCall,
               Sleep 10000, GetVideosOperationCall]
       = 10000 * statusChecks [GenerateVideosCall, Sleep 10000, GetVideosOperationCall,
               Sleep 10000, GetVideosOperationCall]
   \<and> generateAdVideo envWithKey (clientOf failingProvider)
       ''prompt'' ''iVBORw0KGgo='' ''image/png''
     = Some ([GenerateVideosCall, Sleep 10000, GetVideosOperationCall,
              Sleep 10000, GetVideosOperationCall],
             Inl (JsError videoFailedMessage))
   \<and> generateAdVideo envWithKey (clientOf stuckProvider)
       ''prompt'' ''iVBORw0KGgo='' ''image/png'' = None
   \<and> generateAdVideoUpTo 3 envWithKey (clientOf stuckProvider)
       ''prompt'' ''iVBORw0KGgo='' ''image/png''
     = ([GenerateVideosCall, Sleep 10000, GetVideosOperationCall,
         Sleep 10000, GetVideosOperationCall, Sleep 10000, GetVideosOperationCall], None)"
proof -
  let ?link = "''https://files.test/v1:download?alt=media''"
  let ?tr = "[GenerateVideosCall, Sleep 10000, GetVideosOperationCall,
              Sleep 10000, GetVideosOperationCall]"
  have tr: "pollTrace 2 = ?tr"
    by (simp add: pollTrace_def eval_nat_numeral)
  have tr3: "pollTrace 3 = [GenerateVideosCall, Sleep 10000, GetVideosOperationCall,
         Sleep 10000, GetVideosOperationCall, Sleep 10000, GetVideosOperationCall]"
    by (simp add: pollTrace_def eval_nat_numeral)
  \<comment> \<open>completion at the second check\<close>
  have gv1: "generateVideos (remote (clientOf (slowProvider ?link)))
      (videoRequest ''prompt'' ''iVBORw0KGgo='' ''image/png'') = Inr pendingOperation"
    by (simp add: clientOf_def slowProvider_def scriptedProvider_def)
  have g1: "getVideosOperation (remote (clientOf (slowProvider ?link)))
      = (\<lambda>k operation0. if k = 0 then Inr pendingOperation else Inr (doneWithLink ?link))"
    by (simp add: clientOf_def slowProvider_def scriptedProvider_def)
  have p1: "pendingBefore (getVideosOperation (remote (clientOf (slowProvider ?link))))
      pendingOperation 2"
    unfolding g1 by (simp add: pendingBefore_def eval_nat_numeral pendingOperation_def)
  have o1: "operationAfter (getVideosOperation (remote (clientOf (slowProvider ?link)))) 0
      pendingOperation 2 = Inr (doneWithLink ?link)"
    unfolding g1 by (simp add: eval_nat_numeral)
  have d1: "opDone (doneWithLink ?link)"
    by (simp add: doneWithLink_def)
  have a1: "afterLoop envWithKey (doneWithLink ?link)
      = Inr ''https://files.test/v1:download?alt=media&key=k3y''"
    by (simp add: afterLoop_def downloadLinkOf_def doneWithLink_def falsy_def envKeyText_def
        envWithKey_def)
  note inst1 = poll_loop_exits [where env = envWithKey and ai = "clientOf (slowProvider ?link)"
      and pr = "''prompt''" and img = "''iVBORw0KGgo=''" and mt = "''image/png''"
      and tr = ?tr and r = "Inr ''https://files.test/v1:download?alt=media&key=k3y''"
      and ?op0.0 = pendingOperation and n = 2 and op = "doneWithLink ?link"]
  from inst1 gv1 p1 o1 d1
  have r1: "generateAdVideo envWithKey (clientOf (slowProvider ?link))
       ''prompt'' ''iVBORw0KGgo='' ''image/png''
     = Some (?tr, Inr ''https://files.test/v1:download?alt=media&key=k3y'')"
    by (simp only: tr a1 sum.case simp_thms)
  from inst1 r1 have e1: "elapsed ?tr = 10000 * statusChecks ?tr"
    by blast
  \<comment> \<open>a status check that throws\<close>
  have gv2: "generateVideos (remote (clientOf failingProvider))
      (videoRequest ''prompt'' ''iVBORw0KGgo='' ''image/png'') = Inr pendingOperation"
    by (simp add: clientOf_def failingProvider_def scriptedProvider_def)
  have g2: "getVideosOperation (remote (clientOf failingProvider))
      = (\<lambda>k operation0. if k = 0 then Inr pendingOperation else Inl (JsError ''fetch failed''))"
    by (simp add: clientOf_def failingProvider_def scriptedProvider_def)
  have p2: "pendingBefore (getVideosOperation (remote (clientOf failingProvider)))
      pendingOperation 2"
    unfolding g2 by (simp add: pendingBefore_def eval_nat_numeral pendingOperation_def)
  have o2: "operationAfter (getVideosOperation (remote (clientOf failingProvider))) 0
      pendingOperation 2 = Inl (JsError ''fetch failed'')"
    unfolding g2 by (simp add: eval_nat_numeral)
  have c2: "videoCatch (JsError ''fetch failed'') = JsError videoFailedMessage"
    by (simp add: videoCatch_def)
  from poll_loop_exits [where env = envWithKey and ai = "clientOf failingProvider"
      and pr = "''prompt''" and img = "''iVBORw0KGgo=''" and mt = "''image/png''"
      and ?op0.0 = pendingOperation and n = 2 and e = "JsError ''fetch failed''"]
    gv2 p2 o2
  have r2: "generateAdVideo envWithKey (clientOf failingProvider)
       ''prompt'' ''iVBORw0KGgo='' ''image/png''
     = Some (?tr, Inl (JsError videoFailedMessage))"
    by (simp only: tr c2 simp_thms)
  \<comment> \<open>no completion, no failure\<close>
  have gv3: "generateVideos (remote (clientOf stuckProvider))
      (videoRequest ''prompt'' ''iVBORw0KGgo='' ''image/png'') = Inr pendingOperation"
    by (simp add: clientOf_def stuckProvider_def scriptedProvider_def)
  have g3: "getVideosOperation (remote (clientOf stuckProvider))
      = (\<lambda>k operation0. Inr pendingOperation)"
    by (simp add: clientOf_def stuckProvider_def scriptedProvider_def)
  have o3: "operationAfter (\<lambda>k operation0. Inr pendingOperation) k pendingOperation j
      = Inr pendingOperation" for k j
    by (induction j arbitrary: k) simp_all
  have p3: "\<forall>m. pendingBefore (getVideosOperation (remote (clientOf stuckProvider)))
      pendingOperation m"
    unfolding g3 pendingBefore_iff o3 by (simp add: pendingOperation_def)
  note inst3 = poll_loop_exits [where env = envWithKey and ai = "clientOf stuckProvider"
      and pr = "''prompt''" and img = "''iVBORw0KGgo=''" and mt = "''image/png''"
      and ?op0.0 = pendingOperation and fuel = 3]
  from inst3 gv3 p3
  have r3: "generateAdVideo envWithKey (clientOf stuckProvider)
       ''prompt'' ''iVBORw0KGgo='' ''image/png'' = None"
    by blast
  from inst3 gv3 p3
  have "generateAdVideoUpTo 3 envWithKey (clientOf stuckProvider)
       ''prompt'' ''iVBORw0KGgo='' ''image/png'' = (pollTrace 3, None)"
    by blast
  then have r4: "generateAdVideoUpTo 3 envWithKey (clientOf stuckProvider)
       ''prompt'' ''iVBORw0KGgo='' ''image/png''
     = ([GenerateVideosCall, Sleep 10000, GetVideosOperationCall,
         Sleep 10000, GetVideosOperationCall, Sleep 10000, GetVideosOperationCall], None)"
    by (simp only: tr3)
  from r1 e1 r2 r3 r4 show ?thesis by blast
qed

text \<open>
  C2: the code does not do what the claim says. The operation that generateVideos
  returns is complete and has no result. The error with the missing-link message is
  thrown inside the \<^verbatim>\<open>try\<close> block, so the \<^verbatim>\<open>catch\<close> block of the same function replaces
  it: the caller gets the generic failure, not the missing-link error. (Nothing else
  escapes: the optional chain gives undefined for the absent result.)
\<close>

theorem missing_link_reported_as_generic_failure:
  "generateAdVideo envWithKey
       (clientOf (scriptedProvider (Inl JsNonError) (Inr doneWithoutResult)
          (\<lambda>k. Inl JsNonError)))
       ''prompt'' ''iVBORw0KGgo='' ''image/png''
     = Some ([GenerateVideosCall], Inl (JsError videoFailedMessage))
   \<and> videoFailedMessage \<noteq> missingLinkMessage"
proof
  have al: "afterLoop envWithKey doneWithoutResult = Inl (JsError missingLinkMessage)"
    by (simp add: afterLoop_def downloadLinkOf_def doneWithoutResult_def falsy_def)
  have pl: "pollLoop g 0 doneWithoutResult [GenerateVideosCall]
      = Some ([GenerateVideosCall], Inr doneWithoutResult)" for g
    by (subst pollLoop.simps) (simp add: doneWithoutResult_def)
  show "generateAdVideo envWithKey
       (clientOf (scriptedProvider (Inl JsNonError) (Inr doneWithoutResult)
          (\<lambda>k. Inl JsNonError)))
       ''prompt'' ''iVBORw0KGgo='' ''image/png''
     = Some ([GenerateVideosCall], Inl (JsError videoFailedMessage))"
    by (simp add: generateAdVideo_def clientOf_def scriptedProvider_def pl al
        missingLink_not_quota)
  from messages_distinct(3) show "videoFailedMessage \<noteq> missingLinkMessage"
    by simp
qed




section \<open>Claims about generateAdScript\<close>

lemma generateAdScript_trace: "fst (generateAdScript J ai img mt d) = [GenerateContentCall]"
  by (simp add: generateAdScript_def)

lemma generateAdScript_thrown:
  "generateContent (remote ai) (scriptRequest img mt d) = Inl e
   \<Longrightarrow> snd (generateAdScript J ai img mt d) = Inl (scriptCatch e)"
  by (simp add: generateAdScript_def scriptTry_def)

lemma generateAdScript_no_text:
  "generateContent (remote ai) (scriptRequest img mt d) = Inr r
   \<Longrightarrow> responseText r = None
   \<Longrightarrow> snd (generateAdScript J ai img mt d) = Inl (JsError scriptFailedMessage)"
  by (simp add: generateAdScript_def scriptTry_def scriptCatch_def undefinedTrimMessage_def)

lemma generateAdScript_unparsed:
  "generateContent (remote ai) (scriptRequest img mt d) = Inr r
   \<Longrightarrow> responseText r = Some t
   \<Longrightarrow> J (trim t) = Inl m
   \<Longrightarrow> snd (generateAdScript J ai img mt d) = Inl (scriptCatch (JsError m))"
  by (simp add: generateAdScript_def scriptTry_def)

lemma generateAdScript_parsed:
  "generateContent (remote ai) (scriptRequest img mt d) = Inr r
   \<Longrightarrow> responseText r = Some t
   \<Longrightarrow> J (trim t) = Inr v
   \<Longrightarrow> snd (generateAdScript J ai img mt d) = Inr v"
  by (simp add: generateAdScript_def scriptTry_def)

lemma generateAdScript_Inr:
  assumes "snd (generateAdScript J ai img mt d) = Inr v"
  shows "\<exists>r t. generateContent (remote ai) (scriptRequest img mt d) = Inr r
             \<and> responseText r = Some t \<and> J (trim t) = Inr v"
proof (cases "generateContent (remote ai) (scriptRequest img mt d)")
  case (Inl e)
  with assms show ?thesis by (simp add: generateAdScript_thrown)
next
  case (Inr r)
  show ?thesis
  proof (cases "responseText r")
    case None
    with Inr assms show ?thesis by (simp add: generateAdScript_no_text)
  next
    case (Some t)
    show ?thesis
    proof (cases "J (trim t)")
      case (Inl m)
      with Inr Some assms show ?thesis by (simp add: generateAdScript_unparsed)
    next
      case inr: (Inr v')
      with Inr Some assms show ?thesis by (simp add: generateAdScript_parsed)
    qed
  qed
qed

lemma scriptProvider_answer:
  "generateContent (remote (clientOf (scriptProvider c))) request = c"
  by (simp add: clientOf_def scriptProvider_def scriptedProvider_def)

text \<open>
  C3: the code does not do what the claim says for a response whose text is not valid
  JSON. The provider answers the call (no HTTP 429) with the text \<^verbatim>\<open>Error 429\<close>; the
  SyntaxError of the engine quotes that text in its message, and the catch block,
  which looks for \<^verbatim>\<open>429\<close> in the message of whatever it caught, throws the rate-limit
  error where the claim has the generic one.
\<close>

theorem malformed_json_reported_as_rate_limit:
  "generateContent (remote (clientOf (scriptProvider (Inr \<lparr>responseText = Some ''Error 429''\<rparr>))))
       (scriptRequest ''iVBORw0KGgo='' ''image/png'' ''wireless headphones'')
     = Inr \<lparr>responseText = Some ''Error 429''\<rparr>
   \<and> parseOnly ''{}'' (JObject []) v8SyntaxErrorMessage (trim ''Error 429'')
     = Inl v8SyntaxErrorMessage
   \<and> snd (generateAdScript (parseOnly ''{}'' (JObject []) v8SyntaxErrorMessage)
          (clientOf (scriptProvider (Inr \<lparr>responseText = Some ''Error 429''\<rparr>)))
          ''iVBORw0KGgo='' ''image/png'' ''wireless headphones'')
     = Inl (JsError rateLimitMessage)
   \<and> rateLimitMessage \<noteq> scriptFailedMessage"
proof (intro conjI)
  show "generateContent (remote (clientOf (scriptProvider (Inr \<lparr>responseText = Some ''Error 429''\<rparr>))))
       (scriptRequest ''iVBORw0KGgo='' ''image/png'' ''wireless headphones'')
     = Inr \<lparr>responseText = Some ''Error 429''\<rparr>"
    by (rule scriptProvider_answer)
  have t: "trim ''Error 429'' = ''Error 429''"
    by (simp add: trim_def isWhiteSpace_def)
  show p: "parseOnly ''{}'' (JObject []) v8SyntaxErrorMessage (trim ''Error 429'')
      = Inl v8SyntaxErrorMessage"
    unfolding t by (simp add: parseOnly_def)
  have c: "scriptCatch (JsError v8SyntaxErrorMessage) = JsError rateLimitMessage"
    by (simp add: scriptCatch_def v8SyntaxErrorMessage_def)
  show "snd (generateAdScript (parseOnly ''{}'' (JObject []) v8SyntaxErrorMessage)
          (clientOf (scriptProvider (Inr \<lparr>responseText = Some ''Error 429''\<rparr>)))
          ''iVBORw0KGgo='' ''image/png'' ''wireless headphones'')
     = Inl (JsError rateLimitMessage)"
    by (simp add: generateAdScript_def scriptTry_def scriptProvider_answer p c)
  show "rateLimitMessage \<noteq> scriptFailedMessage"
    by (rule messages_distinct(1))
qed

text \<open>
  C4, as the claim states it, fails: the function returns what the provider sent.
  Here the response matches the schema and its only scene has the number 2.
\<close>

theorem misnumbered_script_returned_counterexample:
  "snd (generateAdScript (parseOnly misnumberedText misnumberedScript ''Unexpected end of JSON input'')
          (clientOf (scriptProvider (Inr \<lparr>responseText = Some misnumberedText\<rparr>)))
          ''iVBORw0KGgo='' ''image/png'' ''wireless headphones'')
     = Inr misnumberedScript
   \<and> \<not> scenesNumberedFrom1 misnumberedScript"
proof
  have t: "trim misnumberedText = misnumberedText"
    by (simp add: trim_def isWhiteSpace_def misnumberedText_def)
  show "snd (generateAdScript (parseOnly misnumberedText misnumberedScript ''Unexpected end of JSON input'')
          (clientOf (scriptProvider (Inr \<lparr>responseText = Some misnumberedText\<rparr>)))
          ''iVBORw0KGgo='' ''image/png'' ''wireless headphones'')
     = Inr misnumberedScript"
    by (simp add: generateAdScript_def scriptTry_def scriptProvider_answer t parseOnly_def)
  show "\<not> scenesNumberedFrom1 misnumberedScript"
    by (simp add: scenesNumberedFrom1_def misnumberedScript_def)
qed

text \<open>
  C4, amended. An AdScript that generateAdScript returns is the value that
  \<^verbatim>\<open>JSON.parse\<close> gives for the trimmed text of the provider's response, unchanged: its
  scenes are numbered from 1 in sequence exactly when the provider's response has them
  so. The request asks for the schema of the module, in which \<open>sceneNumber\<close> is an
  integer; the function itself neither numbers nor checks the scenes.
\<close>

theorem script_scene_numbers_are_the_providers:
  "snd (generateAdScript J ai img mt d) = Inr v
   \<Longrightarrow> responseSchema (config (scriptRequest img mt d)) = adScriptSchema
       \<and> (\<exists>r t. generateContent (remote ai) (scriptRequest img mt d) = Inr r
               \<and> responseText r = Some t
               \<and> J (trim t) = Inr v
               \<and> scenesNumberedFrom1 v
                   = (case J (trim t) of
                        Inl m \<Rightarrow> False | Inr parsed \<Rightarrow> scenesNumberedFrom1 parsed))"
proof -
  assume "snd (generateAdScript J ai img mt d) = Inr v"
  from generateAdScript_Inr [OF this] obtain r t where
    "generateContent (remote ai) (scriptRequest img mt d) = Inr r"
    "responseText r = Some t" "J (trim t) = Inr v"
    by blast
  moreover have "responseSchema (config (scriptRequest img mt d)) = adScriptSchema"
    by (simp add: scriptRequest_def)
  ultimately show ?thesis by simp
qed

theorem script_scene_numbers_are_the_providers_witness:
  "snd (generateAdScript (parseOnly numberedText numberedScript ''Unexpected end of JSON input'')
          (clientOf (scriptProvider (Inr \<lparr>responseText = Some numberedText\<rparr>)))
          ''iVBORw0KGgo='' ''image/png'' ''wireless headphones'')
     = Inr numberedScript
   \<and> scenesNumberedFrom1 numberedScript
   \<and> (\<exists>r t. generateContent
             (remote (clientOf (scriptProvider (Inr \<lparr>responseText = Some numberedText\<rparr>))))
             (scriptRequest ''iVBORw0KGgo='' ''image/png'' ''wireless headphones'') = Inr r
           \<and> responseText r = Some t
           \<and> parseOnly numberedText numberedScript ''Unexpected end of JSON input''
               (trim t) = Inr numberedScript)"
proof -
  have t: "trim numberedText = numberedText"
    by (simp add: trim_def isWhiteSpace_def numberedText_def)
  have ret: "snd (generateAdScript (parseOnly numberedText numberedScript ''Unexpected end of JSON input'')
          (clientOf (scriptProvider (Inr \<lparr>responseText = Some numberedText\<rparr>)))
          ''iVBORw0KGgo='' ''image/png'' ''wireless headphones'')
     = Inr numberedScript"
    by (simp add: generateAdScript_def scriptTry_def scriptProvider_answer t parseOnly_def)
  have n: "scenesNumberedFrom1 numberedScript"
    by (simp add: scenesNumberedFrom1_def numberedScript_def)
  from script_scene_numbers_are_the_providers [OF ret] ret n show ?thesis by blast
qed

text \<open>
  C9, as the claim states it, fails in its last part: there is an error path with
  neither a failed provider call nor a JSON parse failure. The provider answers the
  call with a response that has no text; \<^verbatim>\<open>response.text.trim()\<close> then throws a
  TypeError inside the \<^verbatim>\<open>try\<close> block and the function fails with the generic error.
  The engine of this example has a \<^verbatim>\<open>JSON.parse\<close> that accepts every text, so no parse
  failure is possible in it.
\<close>

theorem response_without_text_fails_counterexample:
  "generateContent (remote (clientOf (scriptProvider (Inr \<lparr>responseText = None\<rparr>))))
       (scriptRequest ''iVBORw0KGgo='' ''image/png'' ''wireless headphones'')
     = Inr \<lparr>responseText = None\<rparr>
   \<and> snd (generateAdScript (\<lambda>jsonText. Inr JNull)
          (clientOf (scriptProvider (Inr \<lparr>responseText = None\<rparr>)))
          ''iVBORw0KGgo='' ''image/png'' ''wireless headphones'')
     = Inl (JsError scriptFailedMessage)"
proof
  show "generateContent (remote (clientOf (scriptProvider (Inr \<lparr>responseText = None\<rparr>))))
       (scriptRequest ''iVBORw0KGgo='' ''image/png'' ''wireless headphones'')
     = Inr \<lparr>responseText = None\<rparr>"
    by (rule scriptProvider_answer)
  show "snd (generateAdScript (\<lambda>jsonText. Inr JNull)
          (clientOf (scriptProvider (Inr \<lparr>responseText = None\<rparr>)))
          ''iVBORw0KGgo='' ''image/png'' ''wireless headphones'')
     = Inl (JsError scriptFailedMessage)"
    by (simp add: generateAdScript_def scriptTry_def scriptProvider_answer scriptCatch_def
        undefinedTrimMessage_def)
qed

text \<open>
  C9, amended. generateAdScript performs no validation of the provider's response
  against the AdScript schema: whatever value the trimmed response text parses to is
  returned as the AdScript. The error path is taken exactly when the provider call
  throws, when the response has no text, or when its text does not parse; a response
  without text gives the generic error.
\<close>

theorem script_response_not_validated:
  "(generateContent (remote ai) (scriptRequest img mt d) = Inr r
      \<and> responseText r = Some t \<and> J (trim t) = Inr v
     \<longrightarrow> snd (generateAdScript J ai img mt d) = Inr v)
   \<and> (generateContent (remote ai) (scriptRequest img mt d) = Inr r
      \<and> responseText r = None
     \<longrightarrow> snd (generateAdScript J ai img mt d) = Inl (JsError scriptFailedMessage))
   \<and> (\<exists>e. snd (generateAdScript J ai img mt d) = Inl e)
       = ((\<exists>e. generateContent (remote ai) (scriptRequest img mt d) = Inl e)
          \<or> (\<exists>r. generateContent (remote ai) (scriptRequest img mt d) = Inr r
                   \<and> responseText r = None)
          \<or> (\<exists>r t m. generateContent (remote ai) (scriptRequest img mt d) = Inr r
                   \<and> responseText r = Some t \<and> J (trim t) = Inl m))"
proof (intro conjI impI)
  assume "generateContent (remote ai) (scriptRequest img mt d) = Inr r
      \<and> responseText r = Some t \<and> J (trim t) = Inr v"
  then show "snd (generateAdScript J ai img mt d) = Inr v"
    by (simp add: generateAdScript_parsed)
next
  assume "generateContent (remote ai) (scriptRequest img mt d) = Inr r
      \<and> responseText r = None"
  then show "snd (generateAdScript J ai img mt d) = Inl (JsError scriptFailedMessage)"
    by (simp add: generateAdScript_no_text)
next
  show "(\<exists>e. snd (generateAdScript J ai img mt d) = Inl e)
       = ((\<exists>e. generateContent (remote ai) (scriptRequest img mt d) = Inl e)
          \<or> (\<exists>r. generateContent (remote ai) (scriptRequest img mt d) = Inr r
                   \<and> responseText r = None)
          \<or> (\<exists>r t m. generateContent (remote ai) (scriptRequest img mt d) = Inr r
                   \<and> responseText r = Some t \<and> J (trim t) = Inl m))"
  proof (cases "generateContent (remote ai) (scriptRequest img mt d)")
    case (Inl e)
    then show ?thesis by (simp add: generateAdScript_thrown)
  next
    case (Inr r)
    show ?thesis
    proof (cases "responseText r")
      case None
      with Inr show ?thesis by (simp add: generateAdScript_no_text)
    next
      case (Some t)
      show ?thesis
      proof (cases "J (trim t)")
        case (Inl m)
        with Inr Some show ?thesis by (simp add: generateAdScript_unparsed)
      next
        case inr: (Inr v')
        with Inr Some show ?thesis by (simp add: generateAdScript_parsed)
      qed
    qed
  qed
qed

text \<open>
  The response text is an empty JSON object with white space around it: the value
  has none of the required fields and is returned all the same. A response without
  text fails with the generic error.
\<close>

theorem script_response_not_validated_witness:
  "snd (generateAdScript (parseOnly ''{}'' (JObject []) ''Unexpected end of JSON input'')
          (clientOf (scriptProvider (Inr \<lparr>responseText = Some ('' {} '' @ newline)\<rparr>)))
          ''iVBORw0KGgo='' ''image/png'' ''wireless headphones'')
     = Inr (JObject [])
   \<and> property ''title'' (JObject []) = None
   \<and> property ''tagline'' (JObject []) = None
   \<and> property ''scenes'' (JObject []) = None
   \<and> snd (generateAdScript (parseOnly ''{}'' (JObject []) ''Unexpected end of JSON input'')
          (clientOf (scriptProvider (Inr \<lparr>responseText = None\<rparr>)))
          ''iVBORw0KGgo='' ''image/png'' ''wireless headphones'')
     = Inl (JsError scriptFailedMessage)"
proof -
  have p: "parseOnly ''{}'' (JObject []) ''Unexpected end of JSON input''
      (trim ('' {} '' @ newline)) = Inr (JObject [])"
    by (simp add: parseOnly_def trim_def isWhiteSpace_def newline_def)
  have t: "responseText \<lparr>responseText = Some ('' {} '' @ newline)\<rparr> = Some ('' {} '' @ newline)"
    by simp
  from script_response_not_validated
    [of "clientOf (scriptProvider (Inr \<lparr>responseText = Some ('' {} '' @ newline)\<rparr>))"
      "''iVBORw0KGgo=''" "''image/png''" "''wireless headphones''"
      "\<lparr>responseText = Some ('' {} '' @ newline)\<rparr>" "'' {} '' @ newline"
      "parseOnly ''{}'' (JObject []) ''Unexpected end of JSON input''" "JObject []"]
    p t
  have r1: "snd (generateAdScript (parseOnly ''{}'' (JObject []) ''Unexpected end of JSON input'')
          (clientOf (scriptProvider (Inr \<lparr>responseText = Some ('' {} '' @ newline)\<rparr>)))
          ''iVBORw0KGgo='' ''image/png'' ''wireless headphones'')
     = Inr (JObject [])"
    by (simp only: scriptProvider_answer simp_thms)
  have n: "responseText \<lparr>responseText = None\<rparr> = None"
    by simp
  from script_response_not_validated
    [of "clientOf (scriptProvider (Inr \<lparr>responseText = None\<rparr>))"
      "''iVBORw0KGgo=''" "''image/png''" "''wireless headphones''"
      "\<lparr>responseText = None\<rparr>" _
      "parseOnly ''{}'' (JObject []) ''Unexpected end of JSON input''"]
    n
  have r2: "snd (generateAdScript (parseOnly ''{}'' (JObject []) ''Unexpected end of JSON input'')
          (clientOf (scriptProvider (Inr \<lparr>responseText = None\<rparr>)))
          ''iVBORw0KGgo='' ''image/png'' ''wireless headphones'')
     = Inl (JsError scriptFailedMessage)"
    by (simp only: scriptProvider_answer simp_thms)
  from r1 r2 show ?thesis by simp
qed

section \<open>Claims about the module's start\<close>

text \<open>
  C8, as the claim states it, fails: a key that is present but empty stops the module
  as an absent one does, since the guard tests the truthiness of the value.
\<close>

theorem moduleInit_empty_key_counterexample:
  "API_KEY \<lparr>API_KEY = Some []\<rparr> \<noteq> None
   \<and> moduleInit stuckProvider \<lparr>API_KEY = Some []\<rparr>
       = Inl (JsError ''API_KEY environment variable not set'')"
  by (simp add: moduleInit_def falsy_def)

text \<open>
  C8, amended. The module stops with its error at the start exactly when the API key
  is absent from the environment or empty; with a key that is not empty the start
  succeeds and gives the client that holds this key. No generation function can be
  called without that client.
\<close>

theorem moduleInit_key_check:
  "(moduleInit p env = Inl (JsError ''API_KEY environment variable not set''))
     = (API_KEY env = None \<or> API_KEY env = Some [])
   \<and> (moduleInit p env = Inr \<lparr>apiKey = k, remote = p\<rparr>) = (API_KEY env = Some k \<and> k \<noteq> [])
   \<and> (\<exists>e. moduleInit p env = Inl e) = (\<nexists>ai. moduleInit p env = Inr ai)"
  by (auto simp: moduleInit_def falsy_def split: option.splits)

theorem moduleInit_key_check_witness:
  "moduleInit stuckProvider \<lparr>API_KEY = None\<rparr>
     = Inl (JsError ''API_KEY environment variable not set'')
   \<and> moduleInit stuckProvider envWithKey = Inr \<lparr>apiKey = ''k3y'', remote = stuckProvider\<rparr>"
proof -
  from moduleInit_key_check [of stuckProvider "\<lparr>API_KEY = None\<rparr>"]
  have "moduleInit stuckProvider \<lparr>API_KEY = None\<rparr>
     = Inl (JsError ''API_KEY environment variable not set'')"
    by simp
  moreover from moduleInit_key_check [of stuckProvider envWithKey "''k3y''"]
  have "moduleInit stuckProvider envWithKey = Inr \<lparr>apiKey = ''k3y'', remote = stuckProvider\<rparr>"
    by (simp add: envWithKey_def)
  ultimately show ?thesis by blast
qed

section \<open>Claims about the user interface\<close>

text \<open>
  C5: AdDisplay shows one scene card per entry of the script's scenes array, in the
  order of the array, each with the number and the texts of its scene; a script whose
  scenes are numbered 1, 2, 3 gives exactly three cards, headed 1, 2, 3.
\<close>

theorem scene_cards_follow_scenes:
  "length (sceneCards a) = length (scenes a)
   \<and> (\<forall>i<length (scenes a). sceneCards a ! i = renderScene (scenes a ! i))
   \<and> map heading (sceneCards a) = map (\<lambda>scene. (''SCENE '', sceneNumber scene)) (scenes a)
   \<and> map cardKey (sceneCards a) = map sceneNumber (scenes a)
   \<and> map settingText (sceneCards a) = map setting (scenes a)
   \<and> map soundText (sceneCards a) = map sound (scenes a)
   \<and> map actionText (sceneCards a) = map action (scenes a)
   \<and> map dialogueText (sceneCards a) = map dialogue (scenes a)
   \<and> (map sceneNumber (scenes a) = [1, 2, 3]
      \<longrightarrow> length (sceneCards a) = 3 \<and> map (snd \<circ> heading) (sceneCards a) = [1, 2, 3])"
proof (intro conjI impI allI)
  show "length (sceneCards a) = length (scenes a)"
    by (simp add: sceneCards_def)
  show "sceneCards a ! i = renderScene (scenes a ! i)" if "i < length (scenes a)" for i
    using that by (simp add: sceneCards_def)
  show "map heading (sceneCards a) = map (\<lambda>scene. (''SCENE '', sceneNumber scene)) (scenes a)"
    by (simp add: sceneCards_def renderScene_def comp_def)
  show "map cardKey (sceneCards a) = map sceneNumber (scenes a)"
    by (simp add: sceneCards_def renderScene_def comp_def)
  show "map settingText (sceneCards a) = map setting (scenes a)"
    by (simp add: sceneCards_def renderScene_def comp_def)
  show "map soundText (sceneCards a) = map sound (scenes a)"
    by (simp add: sceneCards_def renderScene_def comp_def)
  show "map actionText (sceneCards a) = map action (scenes a)"
    by (simp add: sceneCards_def renderScene_def comp_def)
  show "map dialogueText (sceneCards a) = map dialogue (scenes a)"
    by (simp add: sceneCards_def renderScene_def comp_def)
next
  assume n: "map sceneNumber (scenes a) = [1, 2, 3]"
  then have "length (map sceneNumber (scenes a)) = 3" by simp
  then show "length (sceneCards a) = 3" by (simp add: sceneCards_def)
  have "map (snd \<circ> heading) (sceneCards a) = map sceneNumber (scenes a)"
    by (simp add: sceneCards_def renderScene_def comp_def)
  with n show "map (snd \<circ> heading) (sceneCards a) = [1, 2, 3]" by simp
qed

theorem scene_cards_follow_scenes_witness:
  "map sceneNumber (scenes headphonesScript) = [1, 2, 3]
   \<and> length (sceneCards headphonesScript) = 3
   \<and> map (snd \<circ> heading) (sceneCards headphonesScript) = [1, 2, 3]
   \<and> sceneCards headphonesScript ! 2 = renderScene (scenes headphonesScript ! 2)"
proof -
  have n: "map sceneNumber (scenes headphonesScript) = [1, 2, 3]"
    by (simp add: headphonesScript_def)
  have l: "(2::nat) < length (scenes headphonesScript)"
    by (simp add: headphonesScript_def)
  from scene_cards_follow_scenes [of headphonesScript] n l show ?thesis by blast
qed




end
